theory Spec2Isabelle
  imports Main
begin

text \<open>
  \<^verbatim>\<open>github-activity\<close> is a command-line program in one Go file, \<^verbatim>\<open>main.go\<close>: it asks
  the GitHub API for the recent events of a user, decodes the JSON array of the answer and
  prints one line for each event. This theory embeds the program in HOL, function by
  function: \<^verbatim>\<open>verbCap\<close>, \<^verbatim>\<open>extractAction\<close>, \<^verbatim>\<open>formatEvent\<close>, \<^verbatim>\<open>fetchEvents\<close> and
  \<^verbatim>\<open>main\<close>, together with the library functions they call, and proves what the
  specification says about them.
\<close>

section \<open>Bytes and strings\<close>

text \<open>
  A Go \<^verbatim>\<open>string\<close>, a \<^verbatim>\<open>[]byte\<close> and a \<^verbatim>\<open>json.RawMessage\<close> are sequences of bytes;
  \<^typ>\<open>string\<close> is \<^typ>\<open>char list\<close> and a \<^typ>\<open>char\<close> is one byte, so all three are modelled
  by \<^typ>\<open>string\<close>. \<^term>\<open>byte c\<close> is the number of a byte, \<^term>\<open>char_of n\<close> the byte of a
  number below 256.
\<close>

definition byte :: "char \<Rightarrow> nat" where
  "byte c = of_char c"

definition backslash :: "char" where
  "backslash = CHR 0x5C"

definition dquote :: "char" where
  "dquote = CHR 0x22"

definition newline :: "char" where
  "newline = CHR 0x0A"

section \<open>The Go library the program calls\<close>

text \<open>
  \<^verbatim>\<open>main.go\<close> formats with \<^verbatim>\<open>fmt.Sprintf\<close> and decodes with \<^verbatim>\<open>json.Unmarshal\<close>. Both
  belong to the Go standard library, not to the repository; this section models the
  parts of them that \<^verbatim>\<open>main.go\<close> reaches, after the library's documented behaviour.
\<close>

subsection \<open>The verbs of \<^verbatim>\<open>fmt.Sprintf\<close>: decimal and hexadecimal digits\<close>

text \<open>
  \<^verbatim>\<open>%s\<close> copies the bytes of its operand, so a format such as \<^verbatim>\<open>"Forked %s"\<close> is an
  append. \<^verbatim>\<open>%d\<close> is only used on \<^verbatim>\<open>len(p.Commits)\<close>, which is never negative:
  \<open>itoa\<close> writes a natural number in decimal.
\<close>

fun itoa :: "nat \<Rightarrow> string" where
  "itoa n = (if n < 10 then [char_of (48 + n)]
             else itoa (n div 10) @ [char_of (48 + n mod 10)])"

declare itoa.simps [simp del]

definition lowerhex :: "string" where
  "lowerhex = ''0123456789abcdef''"

definition hex2 :: "nat \<Rightarrow> string" where
  "hex2 b = [lowerhex ! (b div 16 mod 16), lowerhex ! (b mod 16)]"

definition hex4 :: "nat \<Rightarrow> string" where
  "hex4 r = hex2 (r div 256) @ hex2 r"

definition hex8 :: "nat \<Rightarrow> string" where
  "hex8 r = hex4 (r div 65536) @ hex4 r"

subsection \<open>UTF-8 (\<^verbatim>\<open>unicode/utf8\<close>)\<close>

text \<open>
  \<^verbatim>\<open>utf8.DecodeRune\<close> returns the first rune of a byte sequence and the number of bytes
  it takes; a byte that starts no well-formed encoding is \<^verbatim>\<open>(RuneError, 1)\<close>. The lead
  byte fixes the length and the range accepted for the second byte, as in the package's
  tables \<^verbatim>\<open>first\<close> and \<^verbatim>\<open>acceptRanges\<close>. \<^verbatim>\<open>utf8.EncodeRune\<close> is the converse, with
  surrogates and runes past \<^verbatim>\<open>MaxRune\<close> written as \<^verbatim>\<open>RuneError\<close>.
\<close>

definition RuneError :: "nat" where
  "RuneError = 0xFFFD"

definition DecodeRune :: "string \<Rightarrow> nat \<times> nat" where
  "DecodeRune s =
     (case s of
        [] \<Rightarrow> (RuneError, 0)
      | s0 # t \<Rightarrow>
          let b0 = byte s0 in
          if b0 < 0x80 then (b0, 1)
          else if b0 < 0xC2 \<or> 0xF4 < b0 then (RuneError, 1)
          else
            let sz = (if b0 < 0xE0 then 2 else if b0 < 0xF0 then 3 else 4 :: nat);
                lo = (if b0 = 0xE0 then 0xA0 else if b0 = 0xF0 then 0x90 else 0x80);
                hi = (if b0 = 0xED then 0x9F else if b0 = 0xF4 then 0x8F else 0xBF)
            in
            if length s < sz then (RuneError, 1)
            else
              let b1 = byte (s ! 1) in
              if b1 < lo \<or> hi < b1 then (RuneError, 1)
              else if sz \<le> 2 then (b0 mod 32 * 64 + b1 mod 64, 2)
              else
                let b2 = byte (s ! 2) in
                if b2 < 0x80 \<or> 0xBF < b2 then (RuneError, 1)
                else if sz \<le> 3 then (b0 mod 16 * 4096 + b1 mod 64 * 64 + b2 mod 64, 3)
                else
                  let b3 = byte (s ! 3) in
                  if b3 < 0x80 \<or> 0xBF < b3 then (RuneError, 1)
                  else (b0 mod 8 * 262144 + b1 mod 64 * 4096 + b2 mod 64 * 64 + b3 mod 64, 4))"

definition EncodeRune3 :: "nat \<Rightarrow> string" where
  "EncodeRune3 r = [char_of (0xE0 + r div 4096), char_of (0x80 + r div 64 mod 64),
                    char_of (0x80 + r mod 64)]"

definition EncodeRune :: "nat \<Rightarrow> string" where
  "EncodeRune r =
     (if r \<le> 0x7F then [char_of r]
      else if r \<le> 0x7FF then [char_of (0xC0 + r div 64), char_of (0x80 + r mod 64)]
      else if 0x10FFFF < r \<or> (0xD800 \<le> r \<and> r \<le> 0xDFFF) then EncodeRune3 RuneError
      else if r \<le> 0xFFFF then EncodeRune3 r
      else [char_of (0xF0 + r div 262144), char_of (0x80 + r div 4096 mod 64),
            char_of (0x80 + r div 64 mod 64), char_of (0x80 + r mod 64)])"

lemma DecodeRune_size: "s \<noteq> [] \<Longrightarrow> 1 \<le> snd (DecodeRune s)"
  by (cases s) (simp_all add: DecodeRune_def Let_def)

subsection \<open>The verb \<^verbatim>\<open>%q\<close>: \<^verbatim>\<open>strconv.Quote\<close>\<close>

text \<open>
  \<^verbatim>\<open>%q\<close> on a string is \<^verbatim>\<open>strconv.Quote\<close>: the string as a Go double-quoted literal.
  The double quote and the backslash are escaped with a backslash, a printable rune is
  copied, and every other rune is escaped (\<^verbatim>\<open>\n\<close>, \<^verbatim>\<open>\x01\<close>, \<^verbatim>\<open>\u200b\<close>, ...); a byte
  that is not UTF-8 is written \<^verbatim>\<open>\xNN\<close>.

  \<^verbatim>\<open>strconv.IsPrint\<close> decides Latin-1 by comparisons and every other rune by tables of
  the Unicode version Go was built with (\<^verbatim>\<open>isPrint16\<close>, \<^verbatim>\<open>isNotPrint16\<close>, \<^verbatim>\<open>isPrint32\<close>,
  \<^verbatim>\<open>isNotPrint32\<close>). The tables are data of the library; the model takes their verdict
  as the parameter \<open>tab\<close>, which is only asked about runes above \<^verbatim>\<open>0xFF\<close>.
\<close>

definition IsPrint :: "(nat \<Rightarrow> bool) \<Rightarrow> nat \<Rightarrow> bool" where
  "IsPrint tab r =
     (if r \<le> 0xFF then
        (if 0x20 \<le> r \<and> r \<le> 0x7E then True
         else if 0xA1 \<le> r \<and> r \<le> 0xFF then r \<noteq> 0xAD
         else False)
      else tab r)"

definition appendEscapedRune :: "(nat \<Rightarrow> bool) \<Rightarrow> nat \<Rightarrow> string" where
  "appendEscapedRune tab r =
     (if r = byte dquote \<or> r = byte backslash then [backslash, char_of r]
      else if IsPrint tab r then EncodeRune r
      else if r = 7 then [backslash, CHR ''a'']
      else if r = 8 then [backslash, CHR ''b'']
      else if r = 12 then [backslash, CHR ''f'']
      else if r = 10 then [backslash, CHR ''n'']
      else if r = 13 then [backslash, CHR ''r'']
      else if r = 9 then [backslash, CHR ''t'']
      else if r = 11 then [backslash, CHR ''v'']
      else if r < 0x20 \<or> r = 0x7F then [backslash, CHR ''x''] @ hex2 r
      else if 0x10FFFF < r \<or> (0xD800 \<le> r \<and> r \<le> 0xDFFF)
        then [backslash, CHR ''u''] @ hex4 RuneError
      else if r < 0x10000 then [backslash, CHR ''u''] @ hex4 r
      else [backslash, CHR ''U''] @ hex8 r)"

function quoteBody :: "(nat \<Rightarrow> bool) \<Rightarrow> string \<Rightarrow> string" where
  "quoteBody tab [] = []"
| "quoteBody tab (c # cs) =
     (let (r, width) = (if 0x80 \<le> byte c then DecodeRune (c # cs) else (byte c, 1)) in
      if width = 1 \<and> r = RuneError
      then [backslash, CHR ''x''] @ hex2 (byte c) @ quoteBody tab cs
      else appendEscapedRune tab r @ quoteBody tab (drop width (c # cs)))"
  by pat_completeness auto
termination
  apply (relation "measure (\<lambda>(tab, s). length s)")
    apply simp
   apply simp
  subgoal for tab c cs x r width
    using DecodeRune_size [of "c # cs"]
    by (cases "DecodeRune (c # cs)") (auto split: if_splits)
  done

definition Quote :: "(nat \<Rightarrow> bool) \<Rightarrow> string \<Rightarrow> string" where
  "Quote tab s = dquote # quoteBody tab s @ [dquote]"

subsection \<open>JSON texts (\<^verbatim>\<open>encoding/json\<close>, the scanner)\<close>

text \<open>
  \<^verbatim>\<open>json.Unmarshal\<close> first checks that its input is one JSON text (\<^verbatim>\<open>checkValid\<close>) and
  then stores the value into the Go variable. The model reads the bytes into a value of
  type \<open>json\<close> and stores that. An object keeps its members in the order of the text,
  duplicates included, and each member keeps the bytes of its value, which is what a
  field of type \<^verbatim>\<open>json.RawMessage\<close> receives. A string is kept as the Go string it
  denotes (\<^verbatim>\<open>unquote\<close>: escapes resolved, ill-formed UTF-8 and lone surrogates replaced
  by U+FFFD); a number is kept as its text.
\<close>

datatype json =
    JNull
  | JBool bool
  | JNumber string
  | JString string
  | JArray "json list"
  | JObject "(string \<times> string \<times> json) list"

definition isSpace :: "char \<Rightarrow> bool" where
  "isSpace c = (c = CHR '' '' \<or> c = CHR 0x09 \<or> c = CHR 0x0D \<or> c = CHR 0x0A)"

definition skip_ws :: "string \<Rightarrow> string" where
  "skip_ws = dropWhile isSpace"

definition isDigit :: "char \<Rightarrow> bool" where
  "isDigit c = (48 \<le> byte c \<and> byte c \<le> 57)"

definition hexval :: "char \<Rightarrow> nat option" where
  "hexval c =
     (let b = byte c in
      if 48 \<le> b \<and> b \<le> 57 then Some (b - 48)
      else if 97 \<le> b \<and> b \<le> 102 then Some (b - 97 + 10)
      else if 65 \<le> b \<and> b \<le> 70 then Some (b - 65 + 10)
      else None)"

text \<open>\<^verbatim>\<open>getu4\<close>: the code unit of a \<^verbatim>\<open>\uXXXX\<close> escape at the start of the bytes, if one is there.\<close>

fun getu4 :: "string \<Rightarrow> nat option" where
  "getu4 (b # u # h1 # h2 # h3 # h4 # rest) =
     (if b = backslash \<and> u = CHR ''u'' then
        (case (hexval h1, hexval h2, hexval h3, hexval h4) of
           (Some x1, Some x2, Some x3, Some x4) \<Rightarrow> Some (((x1 * 16 + x2) * 16 + x3) * 16 + x4)
         | _ \<Rightarrow> None)
      else None)"
| "getu4 _ = None"

definition IsSurrogate :: "nat \<Rightarrow> bool" where
  "IsSurrogate r = (0xD800 \<le> r \<and> r < 0xE000)"

definition utf16_DecodeRune :: "nat \<Rightarrow> nat \<Rightarrow> nat" where
  "utf16_DecodeRune r1 r2 =
     (if 0xD800 \<le> r1 \<and> r1 < 0xDC00 \<and> 0xDC00 \<le> r2 \<and> r2 < 0xE000
      then (r1 - 0xD800) * 1024 + (r2 - 0xDC00) + 0x10000
      else RuneError)"

definition unescape :: "char \<Rightarrow> char option" where
  "unescape e =
     (if e = dquote \<or> e = backslash \<or> e = CHR ''/'' then Some e
      else if e = CHR ''b'' then Some (CHR 0x08)
      else if e = CHR ''f'' then Some (CHR 0x0C)
      else if e = CHR ''n'' then Some (CHR 0x0A)
      else if e = CHR ''r'' then Some (CHR 0x0D)
      else if e = CHR ''t'' then Some (CHR 0x09)
      else None)"

definition emit :: "string \<Rightarrow> (string \<times> string) option \<Rightarrow> (string \<times> string) option" where
  "emit bs r = map_option (\<lambda>(s, rest). (bs @ s, rest)) r"

text \<open>
  \<open>scanString\<close> reads a string literal after its opening quote and returns the Go string and
  the bytes after the closing quote. It does in one pass what the scanner's string states
  and \<^verbatim>\<open>unquote\<close> do in two: a control byte, an unknown escape and a \<^verbatim>\<open>\u\<close> without four
  hexadecimal digits are syntax errors; a high surrogate followed by a low one is one rune,
  any other surrogate is U+FFFD.
\<close>

function scanString :: "string \<Rightarrow> (string \<times> string) option" where
  "scanString [] = None"
| "scanString (c # cs) =
     (if c = dquote then Some ([], cs)
      else if c = backslash then
        (case cs of
           [] \<Rightarrow> None
         | e # es \<Rightarrow>
             if e = CHR ''u'' then
               (case getu4 (c # cs) of
                  None \<Rightarrow> None
                | Some rr \<Rightarrow>
                    if IsSurrogate rr then
                      (case getu4 (drop 4 es) of
                         None \<Rightarrow> emit (EncodeRune RuneError) (scanString (drop 4 es))
                       | Some rr1 \<Rightarrow>
                           if utf16_DecodeRune rr rr1 \<noteq> RuneError
                           then emit (EncodeRune (utf16_DecodeRune rr rr1))
                                  (scanString (drop 10 es))
                           else emit (EncodeRune RuneError) (scanString (drop 4 es)))
                    else emit (EncodeRune rr) (scanString (drop 4 es)))
             else (case unescape e of
                     None \<Rightarrow> None
                   | Some b \<Rightarrow> emit [b] (scanString es)))
      else if byte c < 0x20 then None
      else if byte c < 0x80 then emit [c] (scanString cs)
      else emit (EncodeRune (fst (DecodeRune (c # cs))))
             (scanString (drop (snd (DecodeRune (c # cs))) (c # cs))))"
  by pat_completeness auto
termination
  apply (relation "measure length")
          apply simp_all
  subgoal for c cs
    using DecodeRune_size [of "c # cs"] by (cases "snd (DecodeRune (c # cs))") simp_all
  done

text \<open>
  A number: an optional minus, \<^verbatim>\<open>0\<close> or a digit from 1 to 9 followed by digits, an optional
  fraction and an optional exponent. The functions return the bytes after the number.
\<close>

definition scanDigits :: "string \<Rightarrow> string" where
  "scanDigits = dropWhile isDigit"

definition scanExp :: "string \<Rightarrow> string option" where
  "scanExp cs =
     (case cs of
        [] \<Rightarrow> Some []
      | c # r \<Rightarrow>
          if c = CHR ''e'' \<or> c = CHR ''E'' then
            (case (case r of [] \<Rightarrow> [] | s # t \<Rightarrow> if s = CHR ''+'' \<or> s = CHR ''-'' then t else r) of
               [] \<Rightarrow> None
             | d # t \<Rightarrow> if isDigit d then Some (scanDigits t) else None)
          else Some cs)"

definition scanFrac :: "string \<Rightarrow> string option" where
  "scanFrac cs =
     (case cs of
        [] \<Rightarrow> Some []
      | c # r \<Rightarrow>
          if c = CHR ''.'' then
            (case r of
               [] \<Rightarrow> None
             | d # t \<Rightarrow> if isDigit d then scanExp (scanDigits t) else None)
          else scanExp cs)"

definition scanNumber :: "string \<Rightarrow> string option" where
  "scanNumber cs =
     (case (case cs of [] \<Rightarrow> [] | c # t \<Rightarrow> if c = CHR ''-'' then t else cs) of
        [] \<Rightarrow> None
      | d # t \<Rightarrow>
          if d = CHR ''0'' then scanFrac t
          else if isDigit d then scanFrac (scanDigits t)
          else None)"

definition scanLiteral :: "string \<Rightarrow> json \<Rightarrow> string \<Rightarrow> (json \<times> string) option" where
  "scanLiteral lit v cs =
     (if take (length lit) cs = lit then Some (v, drop (length lit) cs) else None)"

text \<open>The scanner refuses a text that nests arrays and objects more than 10000 deep.\<close>

definition maxNestingDepth :: "nat" where
  "maxNestingDepth = 10000"

lemma emit_Some: "emit bs x = Some (s, r) \<Longrightarrow> \<exists>s'. x = Some (s', r)"
  by (cases x) (auto simp: emit_def)

lemma scanString_shorter: "scanString cs = Some (s, r) \<Longrightarrow> length r < length cs"
proof (induction cs arbitrary: s r rule: scanString.induct)
  case 1
  then show ?case by simp
next
  case (2 c cs)
  have w: "1 \<le> snd (DecodeRune (c # cs))" by (rule DecodeRune_size) simp
  from "2.prems" show ?case
    apply (simp split: if_splits list.splits option.splits)
    subgoal by (drule emit_Some) (use "2.IH" w in \<open>fastforce\<close>)
    subgoal by (drule emit_Some) (use "2.IH" w in \<open>fastforce\<close>)
    subgoal by (drule emit_Some) (use "2.IH" w in \<open>fastforce\<close>)
    subgoal by (drule emit_Some) (use "2.IH" w in \<open>fastforce\<close>)
    subgoal by (drule emit_Some) (use "2.IH" w in \<open>fastforce\<close>)
    subgoal by (drule emit_Some) (use "2.IH" w in \<open>fastforce\<close>)
    subgoal by (drule emit_Some) (use "2.IH" w in \<open>fastforce\<close>)
    done
qed

lemma skip_ws_le: "length (skip_ws s) \<le> length s"
  by (simp add: skip_ws_def length_dropWhile_le)

lemma skip_ws_Cons: "skip_ws s = c # r \<Longrightarrow> length r < length s"
  using skip_ws_le [of s] by simp

text \<open>
  A value, the elements of an array after \<^verbatim>\<open>[\<close> and the members of an object after
  \<^verbatim>\<open>{\<close>; each starts at a byte that is not white space and returns what it read and the
  bytes after it. \<open>d\<close> counts the arrays and objects that are open. The tests
  \<open>length r < length cs\<close> are there for the termination proof only: a value that was read
  took at least one byte (\<open>parse_shorter\<close> below), so they never fail.
\<close>

function parseValue :: "nat \<Rightarrow> string \<Rightarrow> (json \<times> string) option"
  and parseArray :: "nat \<Rightarrow> string \<Rightarrow> (json list \<times> string) option"
  and parseObject :: "nat \<Rightarrow> string \<Rightarrow> ((string \<times> string \<times> json) list \<times> string) option"
where
  "parseValue d [] = None"
| "parseValue d (c # cs) =
     (if c = CHR ''{'' then
        (if maxNestingDepth \<le> d then None
         else (case skip_ws cs of
                 [] \<Rightarrow> None
               | c1 # r \<Rightarrow>
                   if c1 = CHR ''}'' then Some (JObject [], r)
                   else map_option (\<lambda>(ms, rest). (JObject ms, rest))
                          (parseObject (Suc d) (c1 # r))))
      else if c = CHR ''['' then
        (if maxNestingDepth \<le> d then None
         else (case skip_ws cs of
                 [] \<Rightarrow> None
               | c1 # r \<Rightarrow>
                   if c1 = CHR '']'' then Some (JArray [], r)
                   else map_option (\<lambda>(vs, rest). (JArray vs, rest))
                          (parseArray (Suc d) (c1 # r))))
      else if c = dquote then map_option (\<lambda>(s, rest). (JString s, rest)) (scanString cs)
      else if c = CHR ''-'' \<or> isDigit c then
        (case scanNumber (c # cs) of
           None \<Rightarrow> None
         | Some rest \<Rightarrow> Some (JNumber (take (length (c # cs) - length rest) (c # cs)), rest))
      else if c = CHR ''t'' then scanLiteral ''true'' (JBool True) (c # cs)
      else if c = CHR ''f'' then scanLiteral ''false'' (JBool False) (c # cs)
      else if c = CHR ''n'' then scanLiteral ''null'' JNull (c # cs)
      else None)"
| "parseArray d cs =
     (case parseValue d cs of
        None \<Rightarrow> None
      | Some (v, r) \<Rightarrow>
          if length r < length cs then
            (case skip_ws r of
               [] \<Rightarrow> None
             | c # r1 \<Rightarrow>
                 if c = CHR '','' then
                   map_option (\<lambda>(vs, rest). (v # vs, rest)) (parseArray d (skip_ws r1))
                 else if c = CHR '']'' then Some ([v], r1)
                 else None)
          else None)"
| "parseObject d [] = None"
| "parseObject d (c # cs) =
     (if c \<noteq> dquote then None
      else (case scanString cs of
              None \<Rightarrow> None
            | Some (k, r1) \<Rightarrow>
                (case skip_ws r1 of
                   [] \<Rightarrow> None
                 | c1 # r2 \<Rightarrow>
                     if c1 \<noteq> CHR '':'' then None
                     else (case parseValue d (skip_ws r2) of
                             None \<Rightarrow> None
                           | Some (v, r4) \<Rightarrow>
                               if length r4 < length (skip_ws r2) then
                                 (case skip_ws r4 of
                                    [] \<Rightarrow> None
                                  | c2 # r5 \<Rightarrow>
                                      if c2 = CHR '','' then
                                        map_option
                                          (\<lambda>(ms, rest).
                                             ((k, take (length (skip_ws r2) - length r4) (skip_ws r2), v)
                                                # ms, rest))
                                          (parseObject d (skip_ws r5))
                                      else if c2 = CHR ''}'' then
                                        Some ([(k, take (length (skip_ws r2) - length r4) (skip_ws r2), v)],
                                              r5)
                                      else None)
                               else None))))"
  by pat_completeness auto
termination
  apply (relation "measure (\<lambda>x. case x of
                      Inl (d, cs) \<Rightarrow> 2 * length cs
                    | Inr (Inl (d, cs)) \<Rightarrow> 2 * length cs + 1
                    | Inr (Inr (d, cs)) \<Rightarrow> 2 * length cs + 1)")
       apply simp
  subgoal using skip_ws_Cons by fastforce
  subgoal using skip_ws_Cons by fastforce
  subgoal by simp
  subgoal for d cs x2 x y xa r1 using skip_ws_Cons [of y xa r1] skip_ws_le [of r1] by simp
  subgoal for d c cs x2 x y x21 x22
    using skip_ws_Cons [of y x21 x22] skip_ws_le [of x22] scanString_shorter [of cs x y] by simp
  subgoal for d c cs x2 x y x21 x22 x2a xa ya x21a x22a
    using skip_ws_Cons [of y x21 x22] skip_ws_le [of x22] scanString_shorter [of cs x y]
      skip_ws_Cons [of ya x21a x22a] skip_ws_le [of x22a] by simp
  done

declare parseValue.simps [simp del] parseArray.simps [simp del] parseObject.simps [simp del]

text \<open>One JSON text: white space, a value, white space, and nothing more.\<close>

definition parseJSON :: "string \<Rightarrow> json option" where
  "parseJSON data =
     (case parseValue 0 (skip_ws data) of
        None \<Rightarrow> None
      | Some (v, r) \<Rightarrow> if skip_ws r = [] then Some v else None)"

subsection \<open>Storing a JSON value into a Go variable (\<^verbatim>\<open>encoding/json\<close>, the decoder)\<close>

text \<open>
  \<^verbatim>\<open>Unmarshal\<close> fails with a \<^verbatim>\<open>SyntaxError\<close> when the bytes are no JSON text, and with
  an \<^verbatim>\<open>UnmarshalTypeError\<close> when a value does not fit the Go type it is stored into. On
  a type error Go goes on decoding and returns the first such error at the end; every
  caller in \<^verbatim>\<open>main.go\<close> drops the variable when an error comes back, so the model stops
  at the first error.
\<close>

datatype json_error = SyntaxError | UnmarshalTypeError

text \<open>
  A key of an object names the struct field whose name it equals, or else the field whose
  name it equals under \<^verbatim>\<open>foldName\<close>: ASCII letters in upper case, any other rune replaced
  by the least rune of its case-folding orbit. The only runes outside ASCII that fold to an
  ASCII letter are U+017F (to S) and U+212A (to K); \<open>foldRune\<close> maps these two and leaves
  every other rune as it is. Go's table may map such a rune to another rune outside ASCII,
  which changes no comparison here, since the names of the fields are ASCII.
\<close>

definition foldRune :: "nat \<Rightarrow> nat" where
  "foldRune r = (if r = 0x17F then 0x53 else if r = 0x212A then 0x4B else r)"

function foldName :: "string \<Rightarrow> string" where
  "foldName [] = []"
| "foldName (c # cs) =
     (if byte c < 0x80
      then (if byte CHR ''a'' \<le> byte c \<and> byte c \<le> byte CHR ''z''
            then char_of (byte c - (byte CHR ''a'' - byte CHR ''A'')) else c) # foldName cs
      else EncodeRune (foldRune (fst (DecodeRune (c # cs))))
             @ foldName (drop (snd (DecodeRune (c # cs))) (c # cs)))"
  by pat_completeness auto
termination
  apply (relation "measure length")
    apply simp_all
  subgoal for c cs
    using DecodeRune_size [of "c # cs"] by (cases "snd (DecodeRune (c # cs))") simp_all
  done

definition fieldMatch :: "string \<Rightarrow> string \<Rightarrow> bool" where
  "fieldMatch name key = (key = name \<or> foldName key = foldName name)"

text \<open>
  Into a \<^verbatim>\<open>string\<close> and a \<^verbatim>\<open>bool\<close>: \<^verbatim>\<open>null\<close> leaves the variable as it is, a value of
  the right kind is stored, any other value is a type error.
\<close>

definition decodeString :: "json \<Rightarrow> string \<Rightarrow> json_error + string" where
  "decodeString v old =
     (case v of JNull \<Rightarrow> Inr old | JString s \<Rightarrow> Inr s | _ \<Rightarrow> Inl UnmarshalTypeError)"

definition decodeBool :: "json \<Rightarrow> bool \<Rightarrow> json_error + bool" where
  "decodeBool v old =
     (case v of JNull \<Rightarrow> Inr old | JBool b \<Rightarrow> Inr b | _ \<Rightarrow> Inl UnmarshalTypeError)"

text \<open>
  Into a struct: \<^verbatim>\<open>null\<close> leaves it as it is; an object stores its members one after
  the other, in the order of the text, each into the field its key names (\<open>field\<close> gets the
  key, the bytes of the value and the value); a key that names no field is skipped. Any
  other value is a type error.
\<close>

fun decodeFields ::
  "(string \<Rightarrow> string \<Rightarrow> json \<Rightarrow> 'a \<Rightarrow> json_error + 'a) \<Rightarrow> (string \<times> string \<times> json) list \<Rightarrow> 'a
     \<Rightarrow> json_error + 'a" where
  "decodeFields field [] p = Inr p"
| "decodeFields field ((k, raw, v) # ms) p =
     (case field k raw v p of
        Inl e \<Rightarrow> Inl e
      | Inr p' \<Rightarrow> decodeFields field ms p')"

definition decodeStruct ::
  "(string \<Rightarrow> string \<Rightarrow> json \<Rightarrow> 'a \<Rightarrow> json_error + 'a) \<Rightarrow> json \<Rightarrow> 'a \<Rightarrow> json_error + 'a" where
  "decodeStruct field v p =
     (case v of
        JNull \<Rightarrow> Inr p
      | JObject ms \<Rightarrow> decodeFields field ms p
      | _ \<Rightarrow> Inl UnmarshalTypeError)"

definition setField :: "json_error + 'b \<Rightarrow> ('b \<Rightarrow> 'a) \<Rightarrow> json_error + 'a" where
  "setField r upd = (case r of Inl e \<Rightarrow> Inl e | Inr x \<Rightarrow> Inr (upd x))"

text \<open>
  Into a slice of structs: \<^verbatim>\<open>null\<close> makes it nil; an array makes it as long as the
  array, element \<open>i\<close> stored into the element the slice already has at \<open>i\<close>, or into a zero
  value (the slice is only non-empty beforehand when a key occurs twice); any other value
  is a type error. The program reads nothing of such a slice but its length.
\<close>

fun decodeElems ::
  "(json \<Rightarrow> 'a \<Rightarrow> json_error + 'a) \<Rightarrow> 'a \<Rightarrow> json list \<Rightarrow> 'a list \<Rightarrow> json_error + 'a list" where
  "decodeElems elem zero [] old = Inr []"
| "decodeElems elem zero (v # vs) old =
     (case elem v (case old of [] \<Rightarrow> zero | x # xs \<Rightarrow> x) of
        Inl e \<Rightarrow> Inl e
      | Inr x \<Rightarrow>
          (case decodeElems elem zero vs (tl old) of
             Inl e \<Rightarrow> Inl e
           | Inr xs \<Rightarrow> Inr (x # xs)))"

definition decodeSlice ::
  "(json \<Rightarrow> 'a \<Rightarrow> json_error + 'a) \<Rightarrow> 'a \<Rightarrow> json \<Rightarrow> 'a list \<Rightarrow> json_error + 'a list" where
  "decodeSlice elem zero v old =
     (case v of
        JNull \<Rightarrow> Inr []
      | JArray vs \<Rightarrow> decodeElems elem zero vs old
      | _ \<Rightarrow> Inl UnmarshalTypeError)"

text \<open>\<^verbatim>\<open>json.Unmarshal(data, &p)\<close>, with \<open>decode\<close> the decoder of the type of \<^verbatim>\<open>p\<close>.\<close>

definition Unmarshal ::
  "(json \<Rightarrow> 'a \<Rightarrow> json_error + 'a) \<Rightarrow> string \<Rightarrow> 'a \<Rightarrow> json_error + 'a" where
  "Unmarshal decode data p =
     (case parseJSON data of
        None \<Rightarrow> Inl SyntaxError
      | Some v \<Rightarrow> decode v p)"

section \<open>The program: \<^verbatim>\<open>main.go\<close>\<close>

subsection \<open>The types and their JSON field names\<close>

record Repo =
  Name :: string

record Event =
  Type :: string
  Repo :: Repo
  Payload :: string

text \<open>The element of \<^verbatim>\<open>PushPayload.Commits\<close>, an anonymous struct in the source.\<close>

record Commit =
  SHA :: string

record PushPayload =
  Commits :: "Commit list"

record ActionPayload =
  Action :: string

record CreatePayload =
  RefType :: string
  Ref :: string

text \<open>The type of \<^verbatim>\<open>PullRequestPayload.PullRequest\<close>, an anonymous struct in the source.\<close>

record PullRequest =
  Merged :: bool

record PullRequestPayload =
  Action :: string
  PullRequest :: PullRequest

text \<open>
  The decoder of each type, from its \<^verbatim>\<open>json:"..."\<close> tags. \<^verbatim>\<open>Event.Payload\<close> is a
  \<^verbatim>\<open>json.RawMessage\<close>: it takes the bytes of the member's value, whatever the value is.
\<close>

definition decodeRepo :: "json \<Rightarrow> Repo \<Rightarrow> json_error + Repo" where
  "decodeRepo =
     decodeStruct (\<lambda>k raw v p.
       if fieldMatch ''name'' k then setField (decodeString v (Name p)) (\<lambda>s. p\<lparr>Name := s\<rparr>)
       else Inr p)"

definition decodeEvent :: "json \<Rightarrow> Event \<Rightarrow> json_error + Event" where
  "decodeEvent =
     decodeStruct (\<lambda>k raw v e.
       if fieldMatch ''type'' k then setField (decodeString v (Type e)) (\<lambda>s. e\<lparr>Type := s\<rparr>)
       else if fieldMatch ''repo'' k then setField (decodeRepo v (Repo e)) (\<lambda>r. e\<lparr>Repo := r\<rparr>)
       else if fieldMatch ''payload'' k then Inr (e\<lparr>Payload := raw\<rparr>)
       else Inr e)"

definition decodeCommit :: "json \<Rightarrow> Commit \<Rightarrow> json_error + Commit" where
  "decodeCommit =
     decodeStruct (\<lambda>k raw v c.
       if fieldMatch ''sha'' k then setField (decodeString v (SHA c)) (\<lambda>s. c\<lparr>SHA := s\<rparr>)
       else Inr c)"

definition decodePushPayload :: "json \<Rightarrow> PushPayload \<Rightarrow> json_error + PushPayload" where
  "decodePushPayload =
     decodeStruct (\<lambda>k raw v p.
       if fieldMatch ''commits'' k
       then setField (decodeSlice decodeCommit \<lparr>SHA = []\<rparr> v (Commits p)) (\<lambda>cs. p\<lparr>Commits := cs\<rparr>)
       else Inr p)"

definition decodeActionPayload :: "json \<Rightarrow> ActionPayload \<Rightarrow> json_error + ActionPayload" where
  "decodeActionPayload =
     decodeStruct (\<lambda>k raw v p.
       if fieldMatch ''action'' k
       then setField (decodeString v (ActionPayload.Action p)) (\<lambda>s. p\<lparr>ActionPayload.Action := s\<rparr>)
       else Inr p)"

definition decodeCreatePayload :: "json \<Rightarrow> CreatePayload \<Rightarrow> json_error + CreatePayload" where
  "decodeCreatePayload =
     decodeStruct (\<lambda>k raw v p.
       if fieldMatch ''ref_type'' k then setField (decodeString v (RefType p)) (\<lambda>s. p\<lparr>RefType := s\<rparr>)
       else if fieldMatch ''ref'' k then setField (decodeString v (Ref p)) (\<lambda>s. p\<lparr>Ref := s\<rparr>)
       else Inr p)"

definition decodePullRequest :: "json \<Rightarrow> PullRequest \<Rightarrow> json_error + PullRequest" where
  "decodePullRequest =
     decodeStruct (\<lambda>k raw v p.
       if fieldMatch ''merged'' k then setField (decodeBool v (Merged p)) (\<lambda>b. p\<lparr>Merged := b\<rparr>)
       else Inr p)"

definition decodePullRequestPayload ::
  "json \<Rightarrow> PullRequestPayload \<Rightarrow> json_error + PullRequestPayload" where
  "decodePullRequestPayload =
     decodeStruct (\<lambda>k raw v p.
       if fieldMatch ''action'' k
       then setField (decodeString v (PullRequestPayload.Action p))
              (\<lambda>s. p\<lparr>PullRequestPayload.Action := s\<rparr>)
       else if fieldMatch ''pull_request'' k
       then setField (decodePullRequest v (PullRequest p)) (\<lambda>r. p\<lparr>PullRequest := r\<rparr>)
       else Inr p)"

text \<open>The zero values that \<^verbatim>\<open>var p T\<close> declares.\<close>

definition zeroEvent :: "Event" where
  "zeroEvent = \<lparr>Type = [], Repo = \<lparr>Name = []\<rparr>, Payload = []\<rparr>"

definition zeroPushPayload :: "PushPayload" where
  "zeroPushPayload = \<lparr>Commits = []\<rparr>"

definition zeroActionPayload :: "ActionPayload" where
  "zeroActionPayload = \<lparr>ActionPayload.Action = []\<rparr>"

definition zeroCreatePayload :: "CreatePayload" where
  "zeroCreatePayload = \<lparr>RefType = [], Ref = []\<rparr>"

definition zeroPullRequestPayload :: "PullRequestPayload" where
  "zeroPullRequestPayload = \<lparr>PullRequestPayload.Action = [], PullRequest = \<lparr>Merged = False\<rparr>\<rparr>"

subsection \<open>\<^verbatim>\<open>verbCap\<close>, \<^verbatim>\<open>extractAction\<close> and \<^verbatim>\<open>formatEvent\<close>\<close>

text \<open>
  \<^verbatim>\<open>verbCap\<close>: the empty string is returned at once, so \<^verbatim>\<open>b[0]\<close> is only read when it
  exists. \<^verbatim>\<open>'a' - 'A'\<close> is 32, and the subtraction cannot wrap because it is only done
  for a byte that is at least \<^verbatim>\<open>'a'\<close>.
\<close>

fun verbCap :: "string \<Rightarrow> string" where
  "verbCap [] = []"
| "verbCap (b0 # bs) =
     (if byte CHR ''a'' \<le> byte b0 \<and> byte b0 \<le> byte CHR ''z''
      then char_of (byte b0 - (byte CHR ''a'' - byte CHR ''A'')) # bs
      else b0 # bs)"

definition extractAction :: "string \<Rightarrow> string" where
  "extractAction payload =
     (case Unmarshal decodeActionPayload payload zeroActionPayload of
        Inl err \<Rightarrow> []
      | Inr p \<Rightarrow> ActionPayload.Action p)"

text \<open>
  \<^verbatim>\<open>formatEvent\<close>: the \<^verbatim>\<open>switch\<close> on \<^verbatim>\<open>e.Type\<close>, case by case in the order of the source.
  It has no error result and no statement that can panic, so the model returns a string.
\<close>

definition formatEvent :: "(nat \<Rightarrow> bool) \<Rightarrow> Event \<Rightarrow> string" where
  "formatEvent tab e =
     (let repo = Name (Repo e) in
      if Type e = ''PushEvent'' then
        (case Unmarshal decodePushPayload (Payload e) zeroPushPayload of
           Inl err \<Rightarrow> ''Pushed commits to '' @ repo
         | Inr p \<Rightarrow>
             let n = length (Commits p) in
             if n = 1 then ''Pushed 1 commit to '' @ repo
             else ''Pushed '' @ itoa n @ '' commits to '' @ repo)
      else if Type e = ''IssuesEvent'' then
        (let action = extractAction (Payload e);
             action = (if action = [] then ''updated'' else action)
         in verbCap action @ '' an issue in '' @ repo)
      else if Type e = ''IssueCommentEvent'' then ''Commented on an issue in '' @ repo
      else if Type e = ''PullRequestEvent'' then
        (case Unmarshal decodePullRequestPayload (Payload e) zeroPullRequestPayload of
           Inl err \<Rightarrow> ''Updated a pull request in '' @ repo
         | Inr p \<Rightarrow>
             if PullRequestPayload.Action p = ''closed'' \<and> Merged (PullRequest p)
             then ''Merged a pull request in '' @ repo
             else if PullRequestPayload.Action p \<noteq> []
             then verbCap (PullRequestPayload.Action p) @ '' a pull request in '' @ repo
             else ''Updated a pull request in '' @ repo)
      else if Type e = ''WatchEvent'' then ''Starred '' @ repo
      else if Type e = ''ForkEvent'' then ''Forked '' @ repo
      else if Type e = ''CreateEvent'' then
        (case Unmarshal decodeCreatePayload (Payload e) zeroCreatePayload of
           Inl err \<Rightarrow> ''Created something in '' @ repo
         | Inr p \<Rightarrow>
             if RefType p = ''repository'' then ''Created repository '' @ repo
             else if Ref p \<noteq> []
             then ''Created '' @ RefType p @ '' '' @ Quote tab (Ref p) @ '' in '' @ repo
             else ''Created '' @ RefType p @ '' in '' @ repo)
      else if repo \<noteq> [] then Type e @ '' in '' @ repo
      else Type e)"

subsection \<open>\<^verbatim>\<open>fetchEvents\<close>\<close>

text \<open>
  The network is not part of the program. What \<^verbatim>\<open>net/http\<close> answers is a parameter:
  \<open>NewRequest\<close> gives the error of \<^verbatim>\<open>http.NewRequest\<close> for a URL, if it has one, and \<open>Do\<close>
  gives what \<^verbatim>\<open>client.Do\<close> returns for the request to that URL, an error or a response.
  The method, the two headers and the timeout of ten seconds are the same in every
  request. \<open>Body\<close> is what \<^verbatim>\<open>io.ReadAll(res.Body)\<close> returns: an error or the bytes.
  An error of the library is kept as its message.
\<close>

record Response =
  StatusCode :: int
  Status :: string
  Body :: "string + string"

record HTTP =
  NewRequest :: "string \<Rightarrow> string option"
  Do :: "string \<Rightarrow> string + Response"

text \<open>
  The errors \<^verbatim>\<open>fetchEvents\<close> returns, one constructor for each \<^verbatim>\<open>return nil, ...\<close> of
  the source, with the operands of its \<^verbatim>\<open>fmt.Errorf\<close>:
  \<^verbatim>\<open>err\<close>, \<^verbatim>\<open>"request failed %w"\<close>, \<^verbatim>\<open>"failed to read response %w"\<close>, \<^verbatim>\<open>"user %s not found"\<close>,
  \<^verbatim>\<open>"forbidden 403, response %s"\<close>, \<^verbatim>\<open>"github api error %s resp: %s"\<close> and
  \<^verbatim>\<open>"invalid json %w"\<close>.
\<close>

datatype error =
    NewRequestError string
  | RequestFailed string
  | ReadFailed string
  | UserNotFound string
  | Forbidden string
  | APIError string string
  | InvalidJSON json_error

definition fetchEvents :: "HTTP \<Rightarrow> string \<Rightarrow> error + Event list" where
  "fetchEvents http username =
     (let url = ''https://api.github.com/users/'' @ username @ ''/events'' in
      case NewRequest http url of
        Some err \<Rightarrow> Inl (NewRequestError err)
      | None \<Rightarrow>
          (case Do http url of
             Inl err \<Rightarrow> Inl (RequestFailed err)
           | Inr res \<Rightarrow>
               (case Body res of
                  Inl err \<Rightarrow> Inl (ReadFailed err)
                | Inr body \<Rightarrow>
                    if StatusCode res = 200 then
                      (case Unmarshal (decodeSlice decodeEvent zeroEvent) body [] of
                         Inl err \<Rightarrow> Inl (InvalidJSON err)
                       | Inr events \<Rightarrow> Inr events)
                    else if StatusCode res = 404 then Inl (UserNotFound username)
                    else if StatusCode res = 403 then Inl (Forbidden body)
                    else Inl (APIError (Status res) body))))"

subsection \<open>\<^verbatim>\<open>main\<close>\<close>

text \<open>
  A run of the program: what it wrote to standard output, what it wrote to standard
  error, and its exit code. \<^verbatim>\<open>fmt.Println\<close> writes its operands with a space between them
  and a newline after them. On standard error, an error value stands for its message.
\<close>

datatype stderr_item = Text string | ErrorValue error

record Run =
  Stdout :: string
  Stderr :: "stderr_item list"
  ExitCode :: int

definition usage :: "stderr_item list" where
  "usage = [Text (''Use it this whay : github-activity <username>'' @ [newline])]"

text \<open>The loop over the events, threading the bytes written to standard output so far.\<close>

fun printEvents :: "(nat \<Rightarrow> bool) \<Rightarrow> Event list \<Rightarrow> string \<Rightarrow> string" where
  "printEvents tab [] out = out"
| "printEvents tab (e # es) out =
     (let line = formatEvent tab e in
      printEvents tab es (if line \<noteq> [] then out @ ''- '' @ line @ [newline] else out))"

definition main :: "(nat \<Rightarrow> bool) \<Rightarrow> HTTP \<Rightarrow> string list \<Rightarrow> Run" where
  "main tab http Args =
     (if length Args \<noteq> 2 then \<lparr>Stdout = [], Stderr = usage, ExitCode = 1\<rparr>
      else
        let username = Args ! 1 in
        case fetchEvents http username of
          Inl err \<Rightarrow>
            \<lparr>Stdout = [], Stderr = [Text ''error '', ErrorValue err, Text [newline]], ExitCode = 1\<rparr>
        | Inr events \<Rightarrow>
            if length events = 0
            then \<lparr>Stdout = ''no recent activity'' @ [newline], Stderr = [], ExitCode = 0\<rparr>
            else \<lparr>Stdout = printEvents tab events [], Stderr = [], ExitCode = 0\<rparr>)"

section \<open>The specification's notions\<close>

text \<open>
  The specification's reading of ``capitalized'', written without arithmetic on bytes:
  the ASCII lowercase letters and their uppercase forms as two tables.
\<close>

definition ascii_lowercase :: "string" where
  "ascii_lowercase = ''abcdefghijklmnopqrstuvwxyz''"

definition ascii_uppercase :: "string" where
  "ascii_uppercase = ''ABCDEFGHIJKLMNOPQRSTUVWXYZ''"

definition uppercased :: "char \<Rightarrow> char" where
  "uppercased c = (case map_of (zip ascii_lowercase ascii_uppercase) c of
                     Some u \<Rightarrow> u | None \<Rightarrow> c)"

definition capitalized :: "string \<Rightarrow> string" where
  "capitalized s = (case s of
                      [] \<Rightarrow> []
                    | c # cs \<Rightarrow> if c \<in> set ascii_lowercase then uppercased c # cs else s)"

text \<open>
  The four event types whose payload is decoded again, each with the type it is decoded as,
  and the fallback line the specification's table lists for each.
\<close>

definition payloadDecodeFails :: "Event \<Rightarrow> bool" where
  "payloadDecodeFails e =
     (if Type e = ''PushEvent''
        then isl (Unmarshal decodePushPayload (Payload e) zeroPushPayload)
      else if Type e = ''IssuesEvent''
        then isl (Unmarshal decodeActionPayload (Payload e) zeroActionPayload)
      else if Type e = ''PullRequestEvent''
        then isl (Unmarshal decodePullRequestPayload (Payload e) zeroPullRequestPayload)
      else if Type e = ''CreateEvent''
        then isl (Unmarshal decodeCreatePayload (Payload e) zeroCreatePayload)
      else False)"

definition fallbackLine :: "Event \<Rightarrow> string" where
  "fallbackLine e =
     (if Type e = ''PushEvent'' then ''Pushed commits to '' @ Name (Repo e)
      else if Type e = ''IssuesEvent'' then ''Updated an issue in '' @ Name (Repo e)
      else if Type e = ''PullRequestEvent'' then ''Updated a pull request in '' @ Name (Repo e)
      else ''Created something in '' @ Name (Repo e))"

text \<open>
  A verdict of the Unicode tables for the examples: no rune above \<^verbatim>\<open>0xFF\<close> is printable.
  The examples are ASCII, so any other verdict gives the same lines.
\<close>

definition noTables :: "nat \<Rightarrow> bool" where
  "noTables r = False"

text \<open>
  Examples: a body with three events, the second without type and repo, and a network
  that accepts every request and answers it with the given status and body.
\<close>

definition exampleBody :: "string" where
  \<open>exampleBody =
     ''[{"type":"WatchEvent","repo":{"name":"o/r"},"payload":{"action":"started"}},'' @
     '' {"id":"1"},'' @
     '' {"type":"PushEvent","repo":{"name":"o/r"},"payload":{"commits":[{"sha":"a"}]}}]''\<close>

definition exampleHTTP :: "int \<Rightarrow> string \<Rightarrow> string \<Rightarrow> HTTP" where
  "exampleHTTP code status body =
     \<lparr>NewRequest = (\<lambda>url. None),
      Do = (\<lambda>url. Inr \<lparr>StatusCode = code, Status = status, Body = Inr body\<rparr>)\<rparr>"

text \<open>The number a string of decimal digits denotes.\<close>

definition decimalValue :: "string \<Rightarrow> nat" where
  "decimalValue s = foldl (\<lambda>a c. 10 * a + (byte c - 48)) 0 s"

text \<open>
  The bytes \<^verbatim>\<open>%q\<close> copies as they are whatever the Unicode tables say: printable ASCII
  other than the double quote and the backslash.
\<close>

definition plainASCII :: "char \<Rightarrow> bool" where
  "plainASCII c = (0x20 \<le> byte c \<and> byte c \<le> 0x7E \<and> c \<noteq> dquote \<and> c \<noteq> backslash)"

section \<open>Evaluating the model on concrete inputs\<close>

lemma char_of_eval:
  "char_of (n::nat) = Char (odd n) (odd (n div 2)) (odd (n div 4)) (odd (n div 8))
     (odd (n div 16)) (odd (n div 32)) (odd (n div 64)) (odd (n div 128))"
  by (simp add: char_of_def bit_iff_odd_drop_bit drop_bit_eq_div)

lemmas eval_defs = byte_def dquote_def backslash_def newline_def emit_def unescape_def
  RuneError_def EncodeRune_def EncodeRune3_def DecodeRune_def IsSurrogate_def
  utf16_DecodeRune_def hexval_def isDigit_def isSpace_def skip_ws_def char_of_eval Let_def
  scanDigits_def scanExp_def scanFrac_def scanNumber_def scanLiteral_def maxNestingDepth_def
  parseValue.simps parseArray.simps parseObject.simps parseJSON_def
  foldRune_def fieldMatch_def decodeString_def decodeBool_def decodeStruct_def
  decodeSlice_def Unmarshal_def setField_def decodeRepo_def decodeEvent_def decodeCommit_def
  decodePushPayload_def decodeActionPayload_def decodeCreatePayload_def decodePullRequest_def
  decodePullRequestPayload_def zeroEvent_def zeroPushPayload_def zeroActionPayload_def
  zeroCreatePayload_def zeroPullRequestPayload_def extractAction_def formatEvent_def
  Quote_def appendEscapedRune_def IsPrint_def hex2_def hex4_def hex8_def lowerhex_def
  itoa.simps fetchEvents_def main_def usage_def noTables_def

section \<open>The scanner reads forward\<close>

text \<open>
  Whatever the scanner reads takes at least one byte, so the length tests in \<open>parseArray\<close>
  and \<open>parseObject\<close> never send a well-formed text to \<open>None\<close>.
\<close>

lemma scanDigits_le: "length s \<le> n \<Longrightarrow> length (scanDigits s) \<le> n"
  using length_dropWhile_le [of isDigit s] by (simp add: scanDigits_def)

lemma scanExp_le: "scanExp cs = Some r \<Longrightarrow> length cs \<le> n \<Longrightarrow> length r \<le> n"
  by (auto simp: scanExp_def split: list.splits if_splits intro: scanDigits_le)

lemma scanFrac_le: "scanFrac cs = Some r \<Longrightarrow> length cs \<le> n \<Longrightarrow> length r \<le> n"
  by (auto simp: scanFrac_def split: list.splits if_splits
      elim!: scanExp_le intro!: scanDigits_le)

lemma scanNumber_shorter: "scanNumber cs = Some r \<Longrightarrow> length r < length cs"
  by (auto simp: scanNumber_def less_Suc_eq_le split: list.splits if_splits
      elim!: scanFrac_le intro!: scanDigits_le)

lemma parse_shorter:
  "parseValue d cs = Some (v, r) \<Longrightarrow> length r < length cs"
  "parseArray d cs = Some (vs, r) \<Longrightarrow> length r < length cs"
  "parseObject d cs = Some (ms, r) \<Longrightarrow> length r < length cs"
proof (induction d cs and d cs and d cs arbitrary: v r and vs r and ms r
    rule: parseValue_parseArray_parseObject.induct)
  case (1 d)
  then show ?case by (simp add: parseValue.simps)
next
  case (2 d c cs)
  note IH = "2.IH"
  from "2.prems" show ?case
    apply (subst (asm) parseValue.simps)
    apply (simp split: if_splits list.splits option.splits)
    subgoal using skip_ws_Cons by fastforce
    subgoal using IH(1) skip_ws_le [of cs] by fastforce
    subgoal using skip_ws_Cons by fastforce
    subgoal using IH(2) skip_ws_le [of cs] by fastforce
    subgoal using scanString_shorter by fastforce
    subgoal using scanNumber_shorter by fastforce
    subgoal by (auto simp: scanLiteral_def split: if_splits)
    subgoal by (auto simp: scanLiteral_def split: if_splits)
    subgoal by (auto simp: scanLiteral_def split: if_splits)
    done
next
  case (3 d cs)
  note IH = "3.IH"
  from "3.prems" show ?case
    apply (subst (asm) parseArray.simps)
    apply (simp split: if_splits list.splits option.splits prod.splits)
    subgoal for x2 x1 x2a x21 x22
      using IH(2) skip_ws_Cons [of x2a x21 x22] skip_ws_le [of x22] by fastforce
    subgoal for x2 x1 x2a x21 using skip_ws_Cons [of x2a x21 r] by simp
    done
next
  case (4 d)
  then show ?case by (simp add: parseObject.simps)
next
  case (5 d c cs)
  note IH = "5.IH"
  from "5.prems" show ?case
    apply (subst (asm) parseObject.simps)
    apply (simp split: if_splits list.splits option.splits prod.splits)
    subgoal for x2 x1 x2a x21 x22 x2b x1a x2c x21a x22a
      using IH(2) scanString_shorter [of cs x1 x2a] skip_ws_Cons [of x2a x21 x22]
        skip_ws_le [of x22] skip_ws_Cons [of x2c x21a x22a] skip_ws_le [of x22a]
      by fastforce
    subgoal for x2 x1 x2a x21 x22 x2b x1a x2c x21a
      using scanString_shorter [of cs x1 x2a] skip_ws_Cons [of x2a x21 x22]
        skip_ws_le [of x22] skip_ws_Cons [of x2c x21a r]
      by simp
    done
qed

text \<open>So the two functions satisfy their equations without the length tests.\<close>

lemma parseArray_unguarded:
  "parseArray d cs =
     (case parseValue d cs of
        None \<Rightarrow> None
      | Some (v, r) \<Rightarrow>
          (case skip_ws r of
             [] \<Rightarrow> None
           | c # r1 \<Rightarrow>
               if c = CHR '','' then
                 map_option (\<lambda>(vs, rest). (v # vs, rest)) (parseArray d (skip_ws r1))
               else if c = CHR '']'' then Some ([v], r1)
               else None))"
  by (subst parseArray.simps) (auto split: option.splits dest: parse_shorter(1))

lemma parseObject_unguarded:
  "parseObject d (c # cs) =
     (if c \<noteq> dquote then None
      else (case scanString cs of
              None \<Rightarrow> None
            | Some (k, r1) \<Rightarrow>
                (case skip_ws r1 of
                   [] \<Rightarrow> None
                 | c1 # r2 \<Rightarrow>
                     if c1 \<noteq> CHR '':'' then None
                     else (case parseValue d (skip_ws r2) of
                             None \<Rightarrow> None
                           | Some (v, r4) \<Rightarrow>
                               (case skip_ws r4 of
                                  [] \<Rightarrow> None
                                | c2 # r5 \<Rightarrow>
                                    if c2 = CHR '','' then
                                      map_option
                                        (\<lambda>(ms, rest).
                                           ((k, take (length (skip_ws r2) - length r4) (skip_ws r2), v)
                                              # ms, rest))
                                        (parseObject d (skip_ws r5))
                                    else if c2 = CHR ''}'' then
                                      Some ([(k, take (length (skip_ws r2) - length r4) (skip_ws r2), v)],
                                            r5)
                                    else None)))))"
  by (subst parseObject.simps) (auto split: option.splits list.splits dest: parse_shorter(1))

section \<open>The capitalization helper\<close>

lemma char_of_byte: "char_of (byte c) = c"
  by (simp add: byte_def)

lemma lowercase_range:
  "c \<in> set ascii_lowercase \<longleftrightarrow> 97 \<le> byte c \<and> byte c \<le> 122"
proof
  assume "c \<in> set ascii_lowercase"
  then show "97 \<le> byte c \<and> byte c \<le> 122"
    by (auto simp: ascii_lowercase_def byte_def)
next
  assume r: "97 \<le> byte c \<and> byte c \<le> 122"
  then have "byte c \<in> {97 ..< 123}" by simp
  then have "byte c \<in> set [97 ..< 123]" by (simp only: set_upt)
  then have "char_of (byte c) \<in> char_of ` set [97 ..< (123::nat)]" by blast
  then have "c \<in> set (map char_of [97 ..< (123::nat)])"
    by (simp only: char_of_byte set_map)
  moreover have "map char_of [97 ..< (123::nat)] = ascii_lowercase"
    unfolding ascii_lowercase_def by code_simp
  ultimately show "c \<in> set ascii_lowercase" by (simp only:)
qed

lemma uppercased_table:
  "list_all (\<lambda>c. uppercased c = char_of (byte c - 32)) ascii_lowercase"
  by code_simp

lemma uppercased_shift:
  "c \<in> set ascii_lowercase \<Longrightarrow> uppercased c = char_of (byte c - 32)"
  using uppercased_table by (simp only: list_all_iff)

lemma verbCap_eq_capitalized: "verbCap s = capitalized s"
proof (cases s)
  case Nil
  then show ?thesis by (simp add: capitalized_def)
next
  case (Cons c cs)
  have a: "byte CHR ''a'' = 97" and z: "byte CHR ''z'' = 122" and A: "byte CHR ''A'' = 65"
    by (simp_all add: byte_def)
  show ?thesis
  proof (cases "c \<in> set ascii_lowercase")
    case True
    then have "97 \<le> byte c \<and> byte c \<le> 122" using lowercase_range [of c] by blast
    with True Cons show ?thesis
      by (simp add: capitalized_def a z A uppercased_shift)
  next
    case False
    then have "\<not> (97 \<le> byte c \<and> byte c \<le> 122)" using lowercase_range [of c] by blast
    with False Cons show ?thesis
      by (auto simp add: capitalized_def a z A)
  qed
qed

lemma verbCap_updated: "verbCap ''updated'' = ''Updated''"
  by (simp add: byte_def char_of_eval)

text \<open>
  C8. For every string, \<^const>\<open>verbCap\<close> returns the string with its first byte uppercased
  when that byte is one of the ASCII letters a to z, and the string itself in every other
  case: the empty string, and a first byte that is an uppercase letter, a digit or a byte
  of a non-ASCII character. The four examples of the specification are instances.
\<close>

theorem verbCap_capitalizes:
  "verbCap s = capitalized s
   \<and> verbCap [] = [] \<and> verbCap ''opened'' = ''Opened'' \<and> verbCap ''Opened'' = ''Opened''
   \<and> verbCap ''123abc'' = ''123abc''"
  by (simp add: verbCap_eq_capitalized [symmetric] byte_def char_of_eval)

section \<open>Payloads that do not decode\<close>

lemma Unmarshal_SyntaxError:
  "parseJSON data = None \<Longrightarrow> Unmarshal decode data p = Inl SyntaxError"
  by (simp add: Unmarshal_def)

text \<open>
  C1. \<^const>\<open>formatEvent\<close> is a function from events to strings: the source has no error
  result and no statement that can panic, whatever the type tag, the repo name and the
  payload bytes are. For each of the four event types whose payload is decoded again, a
  payload that is no JSON text (the empty payload among them) fails to decode, and every
  payload that fails to decode gives the fallback line the specification lists for the type.
\<close>

theorem formatEvent_fallback:
  "(Type e \<in> {''PushEvent'', ''IssuesEvent'', ''PullRequestEvent'', ''CreateEvent''}
      \<and> parseJSON (Payload e) = None \<longrightarrow> payloadDecodeFails e)
   \<and> (payloadDecodeFails e \<longrightarrow> formatEvent tab e = fallbackLine e)"
proof (intro conjI impI)
  assume "Type e \<in> {''PushEvent'', ''IssuesEvent'', ''PullRequestEvent'', ''CreateEvent''}
      \<and> parseJSON (Payload e) = None"
  then show "payloadDecodeFails e"
    by (auto simp: payloadDecodeFails_def Unmarshal_SyntaxError)
next
  assume f: "payloadDecodeFails e"
  show "formatEvent tab e = fallbackLine e"
  proof -
    consider (push) "Type e = ''PushEvent''" | (issues) "Type e = ''IssuesEvent''"
      | (pr) "Type e = ''PullRequestEvent''" | (create) "Type e = ''CreateEvent''"
      using f by (auto simp: payloadDecodeFails_def split: if_splits)
    then show ?thesis
    proof cases
      case push
      with f show ?thesis
        by (auto simp: payloadDecodeFails_def formatEvent_def fallbackLine_def isl_def)
    next
      case issues
      with f show ?thesis
        by (auto simp: payloadDecodeFails_def formatEvent_def fallbackLine_def isl_def
            extractAction_def verbCap_updated simp del: verbCap.simps)
    next
      case pr
      with f show ?thesis
        by (auto simp: payloadDecodeFails_def formatEvent_def fallbackLine_def isl_def)
    next
      case create
      with f show ?thesis
        by (auto simp: payloadDecodeFails_def formatEvent_def fallbackLine_def isl_def)
    qed
  qed
qed

theorem formatEvent_fallback_witness:
  \<open>payloadDecodeFails \<lparr>Type = ''PushEvent'', Repo = \<lparr>Name = ''o/r''\<rparr>, Payload = ''{"commits":''\<rparr>
   \<and> formatEvent noTables \<lparr>Type = ''PushEvent'', Repo = \<lparr>Name = ''o/r''\<rparr>, Payload = ''{"commits":''\<rparr>
       = ''Pushed commits to o/r''
   \<and> payloadDecodeFails \<lparr>Type = ''CreateEvent'', Repo = \<lparr>Name = ''o/r''\<rparr>, Payload = []\<rparr>
   \<and> formatEvent noTables \<lparr>Type = ''CreateEvent'', Repo = \<lparr>Name = ''o/r''\<rparr>, Payload = []\<rparr>
       = ''Created something in o/r''\<close>
  using
    formatEvent_fallback [of "\<lparr>Type = ''PushEvent'', Repo = \<lparr>Name = ''o/r''\<rparr>,
      Payload = ''{'' @ [dquote] @ ''commits'' @ [dquote] @ '':''\<rparr>" noTables]
    formatEvent_fallback [of "\<lparr>Type = ''CreateEvent'', Repo = \<lparr>Name = ''o/r''\<rparr>,
      Payload = []\<rparr>" noTables]
  by (simp add: payloadDecodeFails_def fallbackLine_def eval_defs)

section \<open>Events whose line does not read the payload\<close>

text \<open>
  C10. For an event of type WatchEvent, ForkEvent or IssueCommentEvent the line does not
  depend on the payload: two events of the same one of these types with the same repo name
  get the same line, whatever their payload bytes are.
\<close>

theorem formatEvent_ignores_payload:
  assumes "Type e1 = Type e2"
    and "Type e1 \<in> {''WatchEvent'', ''ForkEvent'', ''IssueCommentEvent''}"
    and "Name (Repo e1) = Name (Repo e2)"
  shows "formatEvent tab e1 = formatEvent tab e2"
  using assms by (auto simp: formatEvent_def)

theorem formatEvent_ignores_payload_witness:
  \<open>formatEvent noTables \<lparr>Type = ''WatchEvent'', Repo = \<lparr>Name = ''o/r''\<rparr>, Payload = ''{"action":"started"}''\<rparr>
   = formatEvent noTables \<lparr>Type = ''WatchEvent'', Repo = \<lparr>Name = ''o/r''\<rparr>, Payload = ''not json''\<rparr>
   \<and> formatEvent noTables \<lparr>Type = ''WatchEvent'', Repo = \<lparr>Name = ''o/r''\<rparr>, Payload = ''not json''\<rparr>
       = ''Starred o/r''\<close>
  using formatEvent_ignores_payload
    [of "\<lparr>Type = ''WatchEvent'', Repo = \<lparr>Name = ''o/r''\<rparr>,
          Payload = ''{'' @ [dquote] @ ''action'' @ [dquote] @ '':'' @ [dquote] @ ''started'' @ [dquote] @ ''}''\<rparr>"
        "\<lparr>Type = ''WatchEvent'', Repo = \<lparr>Name = ''o/r''\<rparr>, Payload = ''not json''\<rparr>"
        noTables]
  by (simp add: dquote_def) (simp add: formatEvent_def)

section \<open>Issues and pull requests\<close>

text \<open>
  C9. For an IssuesEvent with repo name R the payload is decoded as an ActionPayload.
  When that gives a non-empty action the line is the capitalized action followed by
  ``an issue in R''; when the action is empty or the payload does not decode the line is
  ``Updated an issue in R''.
\<close>

theorem IssuesEvent_line:
  assumes "Type e = ''IssuesEvent''"
  shows "extractAction (Payload e) =
           (case Unmarshal decodeActionPayload (Payload e) zeroActionPayload of
              Inl err \<Rightarrow> []
            | Inr p \<Rightarrow> ActionPayload.Action p)
    \<and> formatEvent tab e =
           (if extractAction (Payload e) = [] then ''Updated an issue in '' @ Name (Repo e)
            else capitalized (extractAction (Payload e)) @ '' an issue in '' @ Name (Repo e))"
  using assms
  by (simp add: formatEvent_def Let_def extractAction_def verbCap_updated
      verbCap_eq_capitalized [symmetric]
      split: sum.split del: verbCap.simps)

theorem IssuesEvent_line_witness:
  \<open>formatEvent noTables \<lparr>Type = ''IssuesEvent'', Repo = \<lparr>Name = ''o/r''\<rparr>,
      Payload = ''{"action":"opened"}''\<rparr> = ''Opened an issue in o/r''
   \<and> formatEvent noTables \<lparr>Type = ''IssuesEvent'', Repo = \<lparr>Name = ''o/r''\<rparr>,
      Payload = ''{"action":"Reopened"}''\<rparr> = ''Reopened an issue in o/r''
   \<and> formatEvent noTables \<lparr>Type = ''IssuesEvent'', Repo = \<lparr>Name = ''o/r''\<rparr>,
      Payload = ''{"action":""}''\<rparr> = ''Updated an issue in o/r''
   \<and> formatEvent noTables \<lparr>Type = ''IssuesEvent'', Repo = \<lparr>Name = ''o/r''\<rparr>,
      Payload = ''{"issue":{"number":1}}''\<rparr> = ''Updated an issue in o/r''
   \<and> formatEvent noTables \<lparr>Type = ''IssuesEvent'', Repo = \<lparr>Name = ''o/r''\<rparr>,
      Payload = ''{"action":1}''\<rparr> = ''Updated an issue in o/r''
   \<and> formatEvent noTables \<lparr>Type = ''IssuesEvent'', Repo = \<lparr>Name = ''o/r''\<rparr>,
      Payload = []\<rparr> = ''Updated an issue in o/r''\<close>
proof -
  have t: "Type \<lparr>Type = ''IssuesEvent'', Repo = \<lparr>Name = ''o/r''\<rparr>, Payload = b\<rparr> = ''IssuesEvent''"
    for b by simp
  show ?thesis
    using IssuesEvent_line [OF t, where tab = noTables]
    by (simp add: eval_defs capitalized_def uppercased_def ascii_lowercase_def ascii_uppercase_def)
qed

text \<open>
  C6. For a PullRequestEvent with repo name R the payload is decoded as a
  PullRequestPayload. When it decodes with action ``closed'' and merged true the line is
  ``Merged a pull request in R''; otherwise, when it decodes with a non-empty action, the
  line is the capitalized action followed by ``a pull request in R''; in every remaining
  case, a payload that does not decode or an empty action, the line is
  ``Updated a pull request in R''.
\<close>

theorem PullRequestEvent_line:
  assumes "Type e = ''PullRequestEvent''"
  shows "formatEvent tab e =
           (case Unmarshal decodePullRequestPayload (Payload e) zeroPullRequestPayload of
              Inl err \<Rightarrow> ''Updated a pull request in '' @ Name (Repo e)
            | Inr p \<Rightarrow>
                if PullRequestPayload.Action p = ''closed'' \<and> Merged (PullRequest p)
                then ''Merged a pull request in '' @ Name (Repo e)
                else if PullRequestPayload.Action p \<noteq> []
                then capitalized (PullRequestPayload.Action p) @ '' a pull request in ''
                       @ Name (Repo e)
                else ''Updated a pull request in '' @ Name (Repo e))"
  using assms
  by (simp add: formatEvent_def Let_def verbCap_eq_capitalized [symmetric] split: sum.split
      del: verbCap.simps)

theorem PullRequestEvent_line_witness:
  \<open>formatEvent noTables \<lparr>Type = ''PullRequestEvent'', Repo = \<lparr>Name = ''o/r''\<rparr>,
      Payload = ''{"action":"closed","pull_request":{"merged":true}}''\<rparr>
     = ''Merged a pull request in o/r''
   \<and> formatEvent noTables \<lparr>Type = ''PullRequestEvent'', Repo = \<lparr>Name = ''o/r''\<rparr>,
      Payload = ''{"action":"opened"}''\<rparr>
     = ''Opened a pull request in o/r''
   \<and> formatEvent noTables \<lparr>Type = ''PullRequestEvent'', Repo = \<lparr>Name = ''o/r''\<rparr>,
      Payload = ''{"action":"closed","pull_request":{"merged":false}}''\<rparr>
     = ''Closed a pull request in o/r''
   \<and> formatEvent noTables \<lparr>Type = ''PullRequestEvent'', Repo = \<lparr>Name = ''o/r''\<rparr>,
      Payload = ''{"pull_request":{"merged":true}}''\<rparr>
     = ''Updated a pull request in o/r''
   \<and> formatEvent noTables \<lparr>Type = ''PullRequestEvent'', Repo = \<lparr>Name = ''o/r''\<rparr>,
      Payload = ''{"action":"closed","pull_request":{"merged":"yes"}}''\<rparr>
     = ''Updated a pull request in o/r''\<close>
proof -
  have t: "Type \<lparr>Type = ''PullRequestEvent'', Repo = \<lparr>Name = ''o/r''\<rparr>, Payload = b\<rparr>
      = ''PullRequestEvent''" for b
    by simp
  show ?thesis
    using PullRequestEvent_line [OF t, of noTables]
    by (simp add: eval_defs capitalized_def uppercased_def ascii_lowercase_def ascii_uppercase_def)
qed
section \<open>The lines a run prints\<close>

lemma printEvents_lines:
  "printEvents tab events out =
     out @ concat (map (\<lambda>line. ''- '' @ line @ [newline])
                    (filter (\<lambda>line. line \<noteq> []) (map (formatEvent tab) events)))"
  by (induction events arbitrary: out) (simp_all add: Let_def)

text \<open>
  C5. When the program is started with one argument and the fetch succeeds with a sequence
  of N events: if N is 0 it writes the line ``no recent activity'' to standard output and
  exits with code 0; otherwise it formats every one of the N events and writes, for each
  event whose line is not empty and in the order of the sequence, the line ``- '' followed by
  the event's line, and exits with code 0. Nothing is written to standard error.
\<close>

theorem main_prints_events:
  assumes "length Args = 2"
    and "fetchEvents http (Args ! 1) = Inr events"
  shows "main tab http Args =
           \<lparr>Stdout =
              (if length events = 0 then ''no recent activity'' @ [newline]
               else concat (map (\<lambda>line. ''- '' @ line @ [newline])
                              (filter (\<lambda>line. line \<noteq> []) (map (formatEvent tab) events)))),
            Stderr = [],
            ExitCode = 0\<rparr>"
  using assms by (simp add: main_def printEvents_lines)

lemma fetch_exampleBody:
  \<open>fetchEvents (exampleHTTP 200 ''200 OK'' exampleBody) ''octocat'' =
     Inr [\<lparr>Type = ''WatchEvent'', Repo = \<lparr>Name = ''o/r''\<rparr>, Payload = ''{"action":"started"}''\<rparr>,
          \<lparr>Type = [], Repo = \<lparr>Name = []\<rparr>, Payload = []\<rparr>,
          \<lparr>Type = ''PushEvent'', Repo = \<lparr>Name = ''o/r''\<rparr>, Payload = ''{"commits":[{"sha":"a"}]}''\<rparr>]\<close>
  by (simp add: exampleHTTP_def exampleBody_def eval_defs)

theorem main_prints_events_witness:
  "main noTables (exampleHTTP 200 ''200 OK'' exampleBody) [''github-activity'', ''octocat''] =
     \<lparr>Stdout = ''- Starred o/r'' @ [newline] @ ''- Pushed 1 commit to o/r'' @ [newline],
      Stderr = [], ExitCode = 0\<rparr>
   \<and> main noTables (exampleHTTP 200 ''200 OK'' ''[]'') [''github-activity'', ''octocat''] =
     \<lparr>Stdout = ''no recent activity'' @ [newline], Stderr = [], ExitCode = 0\<rparr>"
proof -
  have two: "length [''github-activity'', ''octocat''] = 2" by simp
  have empty: "fetchEvents (exampleHTTP 200 ''200 OK'' ''[]'') ([''github-activity'', ''octocat''] ! 1) = Inr []"
    by (simp add: exampleHTTP_def eval_defs)
  have some: "fetchEvents (exampleHTTP 200 ''200 OK'' exampleBody) ([''github-activity'', ''octocat''] ! 1) = 
     Inr [\<lparr>Type = ''WatchEvent'', Repo = \<lparr>Name = ''o/r''\<rparr>, Payload = ''{'' @ [dquote] @ ''action'' @ [dquote] @ '':'' @ [dquote] @ ''started'' @ [dquote] @ ''}''\<rparr>,
          \<lparr>Type = [], Repo = \<lparr>Name = []\<rparr>, Payload = []\<rparr>,
          \<lparr>Type = ''PushEvent'', Repo = \<lparr>Name = ''o/r''\<rparr>, Payload = ''{'' @ [dquote] @ ''commits'' @ [dquote] @ '':[{'' @ [dquote] @ ''sha'' @ [dquote] @ '':'' @ [dquote] @ ''a'' @ [dquote] @ ''}]}''\<rparr>]"
    using fetch_exampleBody by (simp add: dquote_def)
  show ?thesis
    using main_prints_events [OF two empty, of noTables]
      main_prints_events [OF two some, of noTables]
    by (simp add: eval_defs)
qed
section \<open>Empty lines\<close>

text \<open>
  C4, as the code has it. The line of an event is empty exactly when both its type and its
  repo name are empty: every type of the dispatch table gives a line that is not empty,
  and the catch-all branch gives the type, followed by `` in '' and the repo name when the
  repo name is not empty. An event with neither a type nor a repo name is the one event
  whose line is empty, and \<^const>\<open>main\<close> prints nothing for it.
\<close>

theorem formatEvent_empty_iff:
  "formatEvent tab e = [] \<longleftrightarrow> Type e = [] \<and> Name (Repo e) = []"
  by (auto simp: formatEvent_def Let_def split: sum.splits)

text \<open>
  The claim as stated fails at the event that the body \<^verbatim>\<open>[{}]\<close> decodes to: its type and
  its repo name are empty, and so is its line.
\<close>

theorem formatEvent_empty_counterexample:
  \<open>fetchEvents (exampleHTTP 200 ''200 OK'' ''[{}]'') ''octocat''
     = Inr [\<lparr>Type = [], Repo = \<lparr>Name = []\<rparr>, Payload = []\<rparr>]
   \<and> formatEvent noTables \<lparr>Type = [], Repo = \<lparr>Name = []\<rparr>, Payload = []\<rparr> = []\<close>
  by (simp add: exampleHTTP_def eval_defs)
section \<open>The status of the response\<close>

lemma decodeSlice_not_array:
  "v \<noteq> JNull \<Longrightarrow> \<forall>vs. v \<noteq> JArray vs \<Longrightarrow> decodeSlice elem zero v old = Inl UnmarshalTypeError"
  by (cases v) (simp_all add: decodeSlice_def)

text \<open>
  C3, as the code has it. For a response whose body could be read, to the request for the
  user's events: status 404 is the failure ``user not found'' with the user name, status
  403 the failure ``forbidden'' with the body, any other status but 200 the failure
  ``github api error'' with the status line and the body. With status 200 the body is
  decoded as a sequence of events: a body that is no JSON text, and a body that is a JSON
  value other than an array or \<^verbatim>\<open>null\<close>, is the failure ``invalid json''; the body
  \<^verbatim>\<open>null\<close> is no failure, it decodes to the empty sequence.
\<close>

theorem fetchEvents_by_status:
  assumes "NewRequest http (''https://api.github.com/users/'' @ username @ ''/events'') = None"
    and "Do http (''https://api.github.com/users/'' @ username @ ''/events'') = Inr res"
    and "Body res = Inr body"
  shows "(StatusCode res = 404 \<longrightarrow> fetchEvents http username = Inl (UserNotFound username))
    \<and> (StatusCode res = 403 \<longrightarrow> fetchEvents http username = Inl (Forbidden body))
    \<and> (StatusCode res \<notin> {200, 404, 403} \<longrightarrow>
         fetchEvents http username = Inl (APIError (Status res) body))
    \<and> (StatusCode res = 200 \<longrightarrow>
         fetchEvents http username =
           (case Unmarshal (decodeSlice decodeEvent zeroEvent) body [] of
              Inl err \<Rightarrow> Inl (InvalidJSON err)
            | Inr events \<Rightarrow> Inr events))
    \<and> (StatusCode res = 200 \<and> parseJSON body = None \<longrightarrow>
         fetchEvents http username = Inl (InvalidJSON SyntaxError))
    \<and> (StatusCode res = 200 \<and> (\<exists>v. parseJSON body = Some v \<and> v \<noteq> JNull \<and> (\<forall>vs. v \<noteq> JArray vs)) \<longrightarrow>
         fetchEvents http username = Inl (InvalidJSON UnmarshalTypeError))
    \<and> (StatusCode res = 200 \<and> parseJSON body = Some JNull \<longrightarrow> fetchEvents http username = Inr [])"
proof -
  have core: "fetchEvents http username =
      (if StatusCode res = 200 then
         (case Unmarshal (decodeSlice decodeEvent zeroEvent) body [] of
            Inl err \<Rightarrow> Inl (InvalidJSON err)
          | Inr events \<Rightarrow> Inr events)
       else if StatusCode res = 404 then Inl (UserNotFound username)
       else if StatusCode res = 403 then Inl (Forbidden body)
       else Inl (APIError (Status res) body))"
    using assms by (simp add: fetchEvents_def Let_def)
  have no_text: "parseJSON body = None \<Longrightarrow>
      Unmarshal (decodeSlice decodeEvent zeroEvent) body [] = Inl SyntaxError"
    by (simp add: Unmarshal_def)
  have no_array: "Unmarshal (decodeSlice decodeEvent zeroEvent) body [] = Inl UnmarshalTypeError"
    if "parseJSON body = Some v" "v \<noteq> JNull" "\<forall>vs. v \<noteq> JArray vs" for v
    using that by (simp add: Unmarshal_def decodeSlice_not_array)
  have is_null: "parseJSON body = Some JNull \<Longrightarrow>
      Unmarshal (decodeSlice decodeEvent zeroEvent) body [] = Inr []"
    by (simp add: Unmarshal_def decodeSlice_def)
  show ?thesis
    unfolding core using no_text no_array is_null by auto
qed

theorem fetchEvents_by_status_witness:
  \<open>fetchEvents (exampleHTTP 404 ''404 Not Found'' ''{"message":"Not Found"}'') ''octocat''
     = Inl (UserNotFound ''octocat'')
   \<and> fetchEvents (exampleHTTP 403 ''403 Forbidden'' ''rate limit'') ''octocat''
     = Inl (Forbidden ''rate limit'')
   \<and> fetchEvents (exampleHTTP 500 ''500 Internal Server Error'' ''oops!'') ''octocat''
     = Inl (APIError ''500 Internal Server Error'' ''oops!'')
   \<and> fetchEvents (exampleHTTP 200 ''200 OK'' ''[{"type":'') ''octocat''
     = Inl (InvalidJSON SyntaxError)
   \<and> fetchEvents (exampleHTTP 200 ''200 OK'' ''{"type":"WatchEvent"}'') ''octocat''
     = Inl (InvalidJSON UnmarshalTypeError)\<close>
proof -
  let ?url = "''https://api.github.com/users/'' @ ''octocat'' @ ''/events''"
  have n: "NewRequest (exampleHTTP c s b) ?url = None"
    and d: "Do (exampleHTTP c s b) ?url = Inr \<lparr>StatusCode = c, Status = s, Body = Inr b\<rparr>"
    and b: "Body \<lparr>StatusCode = c, Status = s, Body = Inr b\<rparr> = Inr b"
    for c s b
    by (simp_all add: exampleHTTP_def)
  have p1: \<open>parseJSON ''[{"type":'' = None\<close>
    by (simp add: eval_defs)
  have p2: \<open>parseJSON ''{"type":"WatchEvent"}''
      = Some (JObject [(''type'', ''"WatchEvent"'', JString ''WatchEvent'')])\<close>
    by (simp add: eval_defs)
  show ?thesis
    using fetchEvents_by_status [OF n d b, of 404 "''404 Not Found''"]
      fetchEvents_by_status [OF n d b, of 403 "''403 Forbidden''" "''rate limit''"]
      fetchEvents_by_status [OF n d b, of 500 "''500 Internal Server Error''" "''oops!''"]
      fetchEvents_by_status [OF n d b, of 200 "''200 OK''"] p1 p2
    by (simp add: Unmarshal_def decodeSlice_def)
qed

text \<open>
  The claim as stated fails at the body \<^verbatim>\<open>null\<close>, which is a JSON text and not an array:
  the fetch succeeds with no event, and the run prints ``no recent activity''.
\<close>

theorem fetchEvents_null_counterexample:
  "parseJSON ''null'' = Some JNull
   \<and> fetchEvents (exampleHTTP 200 ''200 OK'' ''null'') ''octocat'' = Inr []
   \<and> main noTables (exampleHTTP 200 ''200 OK'' ''null'') [''github-activity'', ''octocat'']
       = \<lparr>Stdout = ''no recent activity'' @ [newline], Stderr = [], ExitCode = 0\<rparr>"
  by (simp add: exampleHTTP_def eval_defs)
section \<open>Push events\<close>

lemma byte_char_of: "n < 256 \<Longrightarrow> byte (char_of n) = n"
  by (simp add: byte_def)

lemma itoa_decimal: "decimalValue (itoa n) = n \<and> (\<forall>c\<in>set (itoa n). isDigit c)"
proof (induction n rule: itoa.induct)
  case (1 n)
  show ?case
  proof (cases "n < 10")
    case True
    then show ?thesis
      by (subst (1 2) itoa.simps) (simp add: decimalValue_def isDigit_def byte_char_of)
  next
    case False
    have m: "n mod 10 < 10" by simp
    from False 1 have IH: "decimalValue (itoa (n div 10)) = n div 10"
      "\<forall>c\<in>set (itoa (n div 10)). isDigit c" by simp_all
    have "itoa n = itoa (n div 10) @ [char_of (48 + n mod 10)]"
      using False by (subst itoa.simps) simp
    moreover have "byte (char_of (48 + n mod 10)) = 48 + n mod 10"
      using m by (intro byte_char_of) simp
    ultimately show ?thesis
      using IH by (simp add: decimalValue_def isDigit_def)
  qed
qed

lemma decodeFields_append:
  "decodeFields f (ms1 @ ms2) p =
     (case decodeFields f ms1 p of Inl e \<Rightarrow> Inl e | Inr q \<Rightarrow> decodeFields f ms2 q)"
  by (induction ms1 arbitrary: p) (auto split: sum.splits)

lemma decodeFields_skip:
  "(\<And>k raw v q. (k, raw, v) \<in> set ms \<Longrightarrow> f k raw v q = Inr q) \<Longrightarrow> decodeFields f ms p = Inr p"
  by (induction ms arbitrary: p) auto

lemma decodeElems_length: "decodeElems elem zero vs old = Inr xs \<Longrightarrow> length xs = length vs"
  by (induction vs arbitrary: old xs) (auto split: sum.splits)

lemma decodePushPayload_no_commits:
  assumes "\<forall>m\<in>set ms. \<not> fieldMatch ''commits'' (fst m)"
  shows "decodePushPayload (JObject ms) p = Inr p"
  unfolding decodePushPayload_def decodeStruct_def using assms
  by (auto intro!: decodeFields_skip)

lemma decodePushPayload_last_commits:
  assumes "decodePushPayload (JObject (ms1 @ (k, raw, JArray vs) # ms2)) p0 = Inr p"
    and "fieldMatch ''commits'' k"
    and "\<forall>m\<in>set ms2. \<not> fieldMatch ''commits'' (fst m)"
  shows "length (Commits p) = length vs"
proof -
  let ?f = "\<lambda>k raw v p.
       if fieldMatch ''commits'' k
       then setField (decodeSlice decodeCommit \<lparr>SHA = []\<rparr> v (Commits p)) (\<lambda>cs. p\<lparr>Commits := cs\<rparr>)
       else Inr p"
  from assms(1) have "decodeFields ?f (ms1 @ (k, raw, JArray vs) # ms2) p0 = Inr p"
    by (simp add: decodePushPayload_def decodeStruct_def)
  then obtain q where q: "decodeFields ?f ((k, raw, JArray vs) # ms2) q = Inr p"
    by (auto simp: decodeFields_append split: sum.splits)
  then obtain q' where q': "?f k raw (JArray vs) q = Inr q'" "decodeFields ?f ms2 q' = Inr p"
    by (auto split: sum.splits)
  from q'(1) assms(2) obtain cs
    where cs: "decodeElems decodeCommit \<lparr>SHA = []\<rparr> vs (Commits q) = Inr cs" "q' = q\<lparr>Commits := cs\<rparr>"
    by (auto simp: setField_def decodeSlice_def split: sum.splits)
  have "decodeFields ?f ms2 q' = Inr q'"
    using assms(3) by (auto intro!: decodeFields_skip)
  with q'(2) have "p = q'" by simp
  with cs show ?thesis by (simp add: decodeElems_length)
qed

text \<open>
  C2, as the code has it. For a PushEvent with repo name R the payload is decoded as a
  PushPayload. When it does not decode, the line is the fallback ``Pushed commits to R''.
  When it decodes with n commits, the line is ``Pushed 1 commit to R'' if n is 1 and
  ``Pushed n commits to R'', with n in decimal, otherwise; n is the number of elements of
  the array of the last \<^verbatim>\<open>commits\<close> member of the payload. A payload that is an object
  with no \<^verbatim>\<open>commits\<close> member decodes, with no commits: its line is
  ``Pushed 0 commits to R'', not the fallback.
\<close>

theorem PushEvent_line:
  assumes "Type e = ''PushEvent''"
  shows "formatEvent tab e =
           (case Unmarshal decodePushPayload (Payload e) zeroPushPayload of
              Inl err \<Rightarrow> ''Pushed commits to '' @ Name (Repo e)
            | Inr p \<Rightarrow>
                if length (Commits p) = 1 then ''Pushed 1 commit to '' @ Name (Repo e)
                else ''Pushed '' @ itoa (length (Commits p)) @ '' commits to '' @ Name (Repo e))
    \<and> (\<forall>n. decimalValue (itoa n) = n)
    \<and> (\<forall>ms1 k raw vs ms2 p.
          parseJSON (Payload e) = Some (JObject (ms1 @ (k, raw, JArray vs) # ms2))
          \<and> fieldMatch ''commits'' k \<and> (\<forall>m\<in>set ms2. \<not> fieldMatch ''commits'' (fst m))
          \<and> Unmarshal decodePushPayload (Payload e) zeroPushPayload = Inr p
          \<longrightarrow> length (Commits p) = length vs)
    \<and> (\<forall>ms. parseJSON (Payload e) = Some (JObject ms)
          \<and> (\<forall>m\<in>set ms. \<not> fieldMatch ''commits'' (fst m))
          \<longrightarrow> formatEvent tab e = ''Pushed 0 commits to '' @ Name (Repo e))"
proof (intro conjI allI impI)
  show line: "formatEvent tab e =
           (case Unmarshal decodePushPayload (Payload e) zeroPushPayload of
              Inl err \<Rightarrow> ''Pushed commits to '' @ Name (Repo e)
            | Inr p \<Rightarrow>
                if length (Commits p) = 1 then ''Pushed 1 commit to '' @ Name (Repo e)
                else ''Pushed '' @ itoa (length (Commits p)) @ '' commits to '' @ Name (Repo e))"
    using assms by (simp add: formatEvent_def Let_def split: sum.split)
  show "decimalValue (itoa n) = n" for n
    by (simp add: itoa_decimal)
  show "length (Commits p) = length vs"
    if "parseJSON (Payload e) = Some (JObject (ms1 @ (k, raw, JArray vs) # ms2))
          \<and> fieldMatch ''commits'' k \<and> (\<forall>m\<in>set ms2. \<not> fieldMatch ''commits'' (fst m))
          \<and> Unmarshal decodePushPayload (Payload e) zeroPushPayload = Inr p"
    for ms1 k raw vs ms2 p
    using that decodePushPayload_last_commits [of ms1 k raw vs ms2 zeroPushPayload p]
    by (auto simp: Unmarshal_def)
  show "formatEvent tab e = ''Pushed 0 commits to '' @ Name (Repo e)"
    if "parseJSON (Payload e) = Some (JObject ms)
          \<and> (\<forall>m\<in>set ms. \<not> fieldMatch ''commits'' (fst m))" for ms
  proof -
    from that have "Unmarshal decodePushPayload (Payload e) zeroPushPayload = Inr zeroPushPayload"
      by (simp add: Unmarshal_def decodePushPayload_no_commits)
    then show ?thesis
      unfolding line by (simp add: zeroPushPayload_def itoa.simps char_of_eval)
  qed
qed

theorem PushEvent_line_witness:
  \<open>formatEvent noTables \<lparr>Type = ''PushEvent'', Repo = \<lparr>Name = ''o/r''\<rparr>,
      Payload = ''{"commits":[{"sha":"a"}]}''\<rparr> = ''Pushed 1 commit to o/r''
   \<and> formatEvent noTables \<lparr>Type = ''PushEvent'', Repo = \<lparr>Name = ''o/r''\<rparr>,
      Payload = ''{"commits":[{"sha":"a"},{"sha":"b"}]}''\<rparr> = ''Pushed 2 commits to o/r''
   \<and> formatEvent noTables \<lparr>Type = ''PushEvent'', Repo = \<lparr>Name = ''o/r''\<rparr>,
      Payload = ''{"commits":"none"}''\<rparr> = ''Pushed commits to o/r''
   \<and> formatEvent noTables \<lparr>Type = ''PushEvent'', Repo = \<lparr>Name = ''o/r''\<rparr>,
      Payload = ''{"ref":"refs/heads/main"}''\<rparr> = ''Pushed 0 commits to o/r''\<close>
proof -
  have t: "Type \<lparr>Type = ''PushEvent'', Repo = \<lparr>Name = ''o/r''\<rparr>, Payload = b\<rparr> = ''PushEvent''" for b
    by simp
  have p: \<open>parseJSON ''{"ref":"refs/heads/main"}''
      = Some (JObject [(''ref'', ''"refs/heads/main"'', JString ''refs/heads/main'')])\<close>
    by (simp add: eval_defs)
  have k: "\<not> fieldMatch ''commits'' ''ref''"
    by (simp add: eval_defs)
  show ?thesis
    using PushEvent_line [OF t, of noTables] p k
    by (simp add: eval_defs)
qed

text \<open>
  The claim as stated fails at the payload \<^verbatim>\<open>{}\<close>, which has no \<^verbatim>\<open>commits\<close> field: it
  decodes, and the line counts zero commits instead of being the fallback.
\<close>

theorem PushEvent_missing_commits_counterexample:
  "Unmarshal decodePushPayload ''{}'' zeroPushPayload = Inr \<lparr>Commits = []\<rparr>
   \<and> formatEvent noTables \<lparr>Type = ''PushEvent'', Repo = \<lparr>Name = ''o/r''\<rparr>, Payload = ''{}''\<rparr>
       = ''Pushed 0 commits to o/r''
   \<and> formatEvent noTables \<lparr>Type = ''PushEvent'', Repo = \<lparr>Name = ''o/r''\<rparr>, Payload = ''{}''\<rparr>
       \<noteq> ''Pushed commits to o/r''"
  by (simp add: eval_defs)
section \<open>Create events\<close>

lemma appendEscapedRune_plain:
  assumes "plainASCII c"
  shows "appendEscapedRune tab (byte c) = [c]"
proof -
  from assms have r: "0x20 \<le> byte c" "byte c \<le> 0x7E" "c \<noteq> dquote" "c \<noteq> backslash"
    by (simp_all add: plainASCII_def)
  have "byte c \<noteq> byte dquote" "byte c \<noteq> byte backslash"
    using r(3,4) by (simp_all add: byte_def)
  moreover have "IsPrint tab (byte c)"
    using r(1,2) by (simp add: IsPrint_def)
  moreover have "EncodeRune (byte c) = [c]"
    using r(2) by (simp add: EncodeRune_def) (simp add: byte_def)
  ultimately show ?thesis
    by (simp add: appendEscapedRune_def)
qed

lemma quoteBody_plain: "\<forall>c\<in>set s. plainASCII c \<Longrightarrow> quoteBody tab s = s"
proof (induction s)
  case Nil
  then show ?case by simp
next
  case (Cons c cs)
  then have p: "plainASCII c" and IH: "quoteBody tab cs = cs" by simp_all
  from p have "\<not> 0x80 \<le> byte c" "byte c \<noteq> RuneError"
    by (simp_all add: plainASCII_def RuneError_def)
  then show ?case
    using appendEscapedRune_plain [OF p, of tab] IH by simp
qed

text \<open>
  C7, as the code has it. For a CreateEvent with repo name R the payload is decoded as a
  CreatePayload. When it does not decode, the line is ``Created something in R''. When it
  decodes with ref_type ``repository'', the line is ``Created repository R''. Otherwise,
  when the ref is not empty, the line is ``Created'', the ref_type, the ref as \<^verbatim>\<open>%q\<close>
  writes it, ``in R''; and when the ref is empty it is ``Created'', the ref_type, ``in R''.
  \<^verbatim>\<open>%q\<close> writes the ref as a Go string literal: between double quotes, and unchanged
  when the ref is made of printable ASCII other than the double quote and the backslash;
  those two it escapes with a backslash.
\<close>

theorem CreateEvent_line:
  assumes "Type e = ''CreateEvent''"
  shows "formatEvent tab e =
           (case Unmarshal decodeCreatePayload (Payload e) zeroCreatePayload of
              Inl err \<Rightarrow> ''Created something in '' @ Name (Repo e)
            | Inr p \<Rightarrow>
                if RefType p = ''repository'' then ''Created repository '' @ Name (Repo e)
                else if Ref p \<noteq> []
                then ''Created '' @ RefType p @ '' '' @ Quote tab (Ref p) @ '' in '' @ Name (Repo e)
                else ''Created '' @ RefType p @ '' in '' @ Name (Repo e))
    \<and> (\<forall>ref. (\<forall>c\<in>set ref. plainASCII c) \<longrightarrow> Quote tab ref = [dquote] @ ref @ [dquote])
    \<and> Quote tab [dquote] = [dquote, backslash, dquote, dquote]
    \<and> Quote tab [backslash] = [dquote, backslash, backslash, dquote]"
proof (intro conjI allI impI)
  show "formatEvent tab e =
           (case Unmarshal decodeCreatePayload (Payload e) zeroCreatePayload of
              Inl err \<Rightarrow> ''Created something in '' @ Name (Repo e)
            | Inr p \<Rightarrow>
                if RefType p = ''repository'' then ''Created repository '' @ Name (Repo e)
                else if Ref p \<noteq> []
                then ''Created '' @ RefType p @ '' '' @ Quote tab (Ref p) @ '' in '' @ Name (Repo e)
                else ''Created '' @ RefType p @ '' in '' @ Name (Repo e))"
    using assms by (simp add: formatEvent_def Let_def split: sum.split)
  show "Quote tab ref = [dquote] @ ref @ [dquote]" if "\<forall>c\<in>set ref. plainASCII c" for ref
    using that by (simp add: Quote_def quoteBody_plain)
  show "Quote tab [dquote] = [dquote, backslash, dquote, dquote]"
    by (simp add: Quote_def appendEscapedRune_def byte_def dquote_def backslash_def RuneError_def
        char_of_eval)
  show "Quote tab [backslash] = [dquote, backslash, backslash, dquote]"
    by (simp add: Quote_def appendEscapedRune_def byte_def dquote_def backslash_def RuneError_def
        char_of_eval)
qed

theorem CreateEvent_line_witness:
  \<open>formatEvent noTables \<lparr>Type = ''CreateEvent'', Repo = \<lparr>Name = ''o/r''\<rparr>,
      Payload = ''{"ref_type":"branch","ref":"main"}''\<rparr> = ''Created branch "main" in o/r''
   \<and> formatEvent noTables \<lparr>Type = ''CreateEvent'', Repo = \<lparr>Name = ''o/r''\<rparr>,
      Payload = ''{"ref_type":"repository"}''\<rparr> = ''Created repository o/r''
   \<and> formatEvent noTables \<lparr>Type = ''CreateEvent'', Repo = \<lparr>Name = ''o/r''\<rparr>,
      Payload = ''{"ref_type":"tag"}''\<rparr> = ''Created tag in o/r''
   \<and> formatEvent noTables \<lparr>Type = ''CreateEvent'', Repo = \<lparr>Name = ''o/r''\<rparr>,
      Payload = ''{"ref_type":7}''\<rparr> = ''Created something in o/r''\<close>
proof -
  have t: "Type \<lparr>Type = ''CreateEvent'', Repo = \<lparr>Name = ''o/r''\<rparr>, Payload = b\<rparr> = ''CreateEvent''" for b
    by simp
  have m: "\<forall>c\<in>set ''main''. plainASCII c"
    by (simp add: plainASCII_def eval_defs)
  show ?thesis
    using CreateEvent_line [OF t, of noTables] m
    by (simp add: eval_defs)
qed

text \<open>
  The claim as stated fails at a ref with a double quote in it, here the ref \<^verbatim>\<open>a"b\<close>
  (written \<^verbatim>\<open>"a\"b"\<close> in the payload): the line is not the ref between double quotes, the
  quote inside the ref is escaped with a backslash.
\<close>

theorem CreateEvent_quote_counterexample:
  \<open>Unmarshal decodeCreatePayload (''{"ref_type":"branch","ref":"a'' @ [backslash] @ ''"b"}'')
       zeroCreatePayload
     = Inr \<lparr>RefType = ''branch'', Ref = ''a"b''\<rparr>
   \<and> formatEvent noTables \<lparr>Type = ''CreateEvent'', Repo = \<lparr>Name = ''o/r''\<rparr>,
        Payload = ''{"ref_type":"branch","ref":"a'' @ [backslash] @ ''"b"}''\<rparr>
     = ''Created branch "a'' @ [backslash] @ ''"b" in o/r''
   \<and> formatEvent noTables \<lparr>Type = ''CreateEvent'', Repo = \<lparr>Name = ''o/r''\<rparr>,
        Payload = ''{"ref_type":"branch","ref":"a'' @ [backslash] @ ''"b"}''\<rparr>
     \<noteq> ''Created branch '' @ [dquote] @ ''a"b'' @ [dquote] @ '' in o/r''\<close>
  by (simp add: eval_defs)
end
